theory Spec2Isabelle
  imports Main "HOL-Library.Word"
begin

section \<open>JavaScript values used by the client\<close>

text \<open>
  A JavaScript string is a sequence of 16-bit code units. String literals of the source
  are written \<open>js ''...''\<close>.
\<close>

type_synonym code_unit = "16 word"
type_synonym jsstring = "code_unit list"

definition js :: "string \<Rightarrow> jsstring" where
  "js s = map (\<lambda>c. of_nat (of_char c)) s"

text \<open>
  A JavaScript number as the client meets it: the result of \<open>parseInt\<close> or the length of
  a buffer. \<open>NaN\<close> is the not-a-number value; \<open>Num i\<close> is the integer \<open>i\<close> (plus and
  minus zero are both \<open>Num 0\<close>; the rounding to a double beyond \<open>2 ^ 53\<close> is not part of
  the model).
\<close>

datatype number = NaN | Num int

text \<open>Truthiness of a number, as \<open>||\<close> tests it: \<open>NaN\<close> and zero are falsy.\<close>

fun truthy_number :: "number \<Rightarrow> bool" where
  "truthy_number NaN = False"
| "truthy_number (Num i) = (i \<noteq> 0)"

text \<open>\<open>s || d\<close> for \<open>s\<close> a string or \<open>null\<close>: \<open>null\<close> and the empty string are falsy.\<close>

fun string_or :: "jsstring option \<Rightarrow> jsstring \<Rightarrow> jsstring" where
  "string_or None d = d"
| "string_or (Some s) d = (if s = [] then d else s)"

text \<open>\<open>n || undefined\<close> for a number \<open>n\<close>.\<close>

fun number_or_undefined :: "number \<Rightarrow> int option" where
  "number_or_undefined NaN = None"
| "number_or_undefined (Num i) = (if i = 0 then None else Some i)"

text \<open>Values the client never inspects (\<open>unknown\<close> in the source).\<close>

typedecl unknown

subsection \<open>\<open>parseInt(string, 10)\<close>\<close>

text \<open>
  ECMAScript \<open>parseInt\<close>: leading white space and line terminators are dropped, an
  optional sign is read, then the longest run of decimal digits; no digit gives \<open>NaN\<close>.
  Only radix 10 is used by the client.
\<close>

definition isWhiteSpace :: "code_unit \<Rightarrow> bool" where
  "isWhiteSpace c =
     (c = 0x9 \<or> c = 0xA \<or> c = 0xB \<or> c = 0xC \<or> c = 0xD \<or> c = 0x20 \<or> c = 0xA0 \<or>
      c = 0x1680 \<or> (0x2000 \<le> c \<and> c \<le> 0x200A) \<or> c = 0x2028 \<or> c = 0x2029 \<or>
      c = 0x202F \<or> c = 0x205F \<or> c = 0x3000 \<or> c = 0xFEFF)"

definition isDecimalDigit :: "code_unit \<Rightarrow> bool" where
  "isDecimalDigit c = (0x30 \<le> c \<and> c \<le> 0x39)"

definition decimalValue :: "jsstring \<Rightarrow> int" where
  "decimalValue Z = foldl (\<lambda>a c. 10 * a + (uint c - 48)) 0 Z"

definition parseInt10 :: "jsstring \<Rightarrow> number" where
  "parseInt10 inputString =
     (let S = dropWhile isWhiteSpace inputString;
          sign = (case S of c # _ \<Rightarrow> if c = 0x2D then - 1 else 1 | [] \<Rightarrow> 1);
          S' = (case S of c # t \<Rightarrow> if c = 0x2B \<or> c = 0x2D then t else S | [] \<Rightarrow> S);
          Z = takeWhile isDecimalDigit S'
      in if Z = [] then NaN else Num (sign * decimalValue Z))"

subsection \<open>The exceptions of the JavaScript runtime\<close>

text \<open>
  What the runtime can throw at the client: an \<open>Error\<close> object with its \<open>name\<close> and
  \<open>message\<close> (\<open>TypeError\<close>, \<open>URIError\<close>, the \<open>AbortError\<close> of an aborted fetch), or a
  thrown value that is not an \<open>Error\<close>.
\<close>

datatype js_exception = JsError (ename: jsstring) (emessage: jsstring) | JsNonError

definition URIError :: js_exception where
  "URIError = JsError (js ''URIError'') (js ''URI malformed'')"

subsection \<open>\<open>decodeURIComponent\<close>\<close>

definition hexValue :: "code_unit \<Rightarrow> nat option" where
  "hexValue c =
     (if 0x30 \<le> c \<and> c \<le> 0x39 then Some (unat c - 48)
      else if 0x41 \<le> c \<and> c \<le> 0x46 then Some (unat c - 55)
      else if 0x61 \<le> c \<and> c \<le> 0x66 then Some (unat c - 87)
      else None)"

definition parseHexOctet :: "code_unit \<Rightarrow> code_unit \<Rightarrow> nat option" where
  "parseHexOctet h l =
     (case (hexValue h, hexValue l) of
        (Some a, Some b) \<Rightarrow> Some (16 * a + b)
      | _ \<Rightarrow> None)"

text \<open>The number of leading 1 bits of an octet, which is the length of its UTF-8 sequence.\<close>

definition leadingOnes :: "nat \<Rightarrow> nat" where
  "leadingOnes B =
     (if B < 0x80 then 0 else if B < 0xC0 then 1 else if B < 0xE0 then 2
      else if B < 0xF0 then 3 else if B < 0xF8 then 4 else 5)"

text \<open>
  The \<open>j\<close> escapes \<open>%XX\<close> that must follow the first octet of a multi-octet sequence;
  \<open>None\<close> where the source throws (string too short, no \<open>%\<close>, not two hex digits).
\<close>

fun continuationOctets :: "nat \<Rightarrow> jsstring \<Rightarrow> (nat list \<times> jsstring) option" where
  "continuationOctets 0 s = Some ([], s)"
| "continuationOctets (Suc j) (c # h # l # rest) =
     (if c = 0x25 then
        (case parseHexOctet h l of
           None \<Rightarrow> None
         | Some B \<Rightarrow>
             (case continuationOctets j rest of
                None \<Rightarrow> None
              | Some (bs, r) \<Rightarrow> Some (B # bs, r)))
      else None)"
| "continuationOctets (Suc j) _ = None"

text \<open>
  The code point of a UTF-8 sequence of two to four octets, \<open>None\<close> when the octets are
  not a valid encoding (a continuation octet out of \<open>0x80..0xBF\<close>, an overlong form, a
  surrogate, a value above \<open>0x10FFFF\<close>).
\<close>

definition isContinuation :: "nat \<Rightarrow> bool" where
  "isContinuation b = (0x80 \<le> b \<and> b < 0xC0)"

fun utf8CodePoint :: "nat list \<Rightarrow> nat option" where
  "utf8CodePoint [a, b] =
     (let V = (a - 0xC0) * 64 + (b - 0x80)
      in if isContinuation b \<and> 0x80 \<le> V then Some V else None)"
| "utf8CodePoint [a, b, c] =
     (let V = (a - 0xE0) * 4096 + (b - 0x80) * 64 + (c - 0x80)
      in if isContinuation b \<and> isContinuation c \<and> 0x800 \<le> V \<and> \<not> (0xD800 \<le> V \<and> V < 0xE000)
         then Some V else None)"
| "utf8CodePoint [a, b, c, d] =
     (let V = (a - 0xF0) * 262144 + (b - 0x80) * 4096 + (c - 0x80) * 64 + (d - 0x80)
      in if isContinuation b \<and> isContinuation c \<and> isContinuation d \<and> 0x10000 \<le> V \<and> V < 0x110000
         then Some V else None)"
| "utf8CodePoint _ = None"

definition UTF16EncodeCodePoint :: "nat \<Rightarrow> jsstring" where
  "UTF16EncodeCodePoint V =
     (if V < 0x10000 then [of_nat V]
      else [of_nat (0xD800 + (V - 0x10000) div 1024), of_nat (0xDC00 + (V - 0x10000) mod 1024)])"

lemma continuationOctets_length:
  "continuationOctets j s = Some (bs, r) \<Longrightarrow> length r \<le> length s"
  by (induction j s arbitrary: bs r rule: continuationOctets.induct)
    (fastforce split: if_splits option.splits)+

text \<open>
  ECMAScript \<open>Decode\<close> with an empty set of preserved escapes. \<open>Inl URIError\<close> is the
  \<open>URIError\<close> the builtin throws.
\<close>

function decodeURIComponent :: "jsstring \<Rightarrow> js_exception + jsstring" where
  "decodeURIComponent [] = Inr []"
| "decodeURIComponent (C # s) =
     (if C \<noteq> 0x25 then
        (case decodeURIComponent s of Inl e \<Rightarrow> Inl e | Inr R \<Rightarrow> Inr (C # R))
      else
        (case s of
           h # l # rest \<Rightarrow>
             (case parseHexOctet h l of
                None \<Rightarrow> Inl URIError
              | Some B \<Rightarrow>
                  (let n = leadingOnes B in
                   if n = 0 then
                     (case decodeURIComponent rest of
                        Inl e \<Rightarrow> Inl e
                      | Inr R \<Rightarrow> Inr (of_nat B # R))
                   else if n = 1 \<or> 4 < n then Inl URIError
                   else
                     (case continuationOctets (n - 1) rest of
                        None \<Rightarrow> Inl URIError
                      | Some (bs, rest') \<Rightarrow>
                          (case utf8CodePoint (B # bs) of
                             None \<Rightarrow> Inl URIError
                           | Some V \<Rightarrow>
                               (case decodeURIComponent rest' of
                                  Inl e \<Rightarrow> Inl e
                                | Inr R \<Rightarrow> Inr (UTF16EncodeCodePoint V @ R))))))
         | _ \<Rightarrow> Inl URIError))"
  by pat_completeness auto
termination
  by (relation "measure length") (auto dest: continuationOctets_length)

subsection \<open>\<open>encodeURIComponent\<close>\<close>

text \<open>The code units left as they are: letters, digits and \<open>- _ . ! ~ * ' ( )\<close>.\<close>

definition isUnescaped :: "code_unit \<Rightarrow> bool" where
  "isUnescaped c =
     ((0x41 \<le> c \<and> c \<le> 0x5A) \<or> (0x61 \<le> c \<and> c \<le> 0x7A) \<or> (0x30 \<le> c \<and> c \<le> 0x39) \<or>
      c = 0x2D \<or> c = 0x5F \<or> c = 0x2E \<or> c = 0x21 \<or> c = 0x7E \<or> c = 0x2A \<or>
      c = 0x27 \<or> c = 0x28 \<or> c = 0x29)"

definition isLeadingSurrogate :: "code_unit \<Rightarrow> bool" where
  "isLeadingSurrogate c = (0xD800 \<le> c \<and> c \<le> 0xDBFF)"

definition isTrailingSurrogate :: "code_unit \<Rightarrow> bool" where
  "isTrailingSurrogate c = (0xDC00 \<le> c \<and> c \<le> 0xDFFF)"

definition utf8Encode :: "nat \<Rightarrow> nat list" where
  "utf8Encode V =
     (if V < 0x80 then [V]
      else if V < 0x800 then [0xC0 + V div 64, 0x80 + V mod 64]
      else if V < 0x10000 then [0xE0 + V div 4096, 0x80 + (V div 64) mod 64, 0x80 + V mod 64]
      else [0xF0 + V div 262144, 0x80 + (V div 4096) mod 64, 0x80 + (V div 64) mod 64,
            0x80 + V mod 64])"

definition upperHexDigit :: "nat \<Rightarrow> code_unit" where
  "upperHexDigit d = (if d < 10 then of_nat (48 + d) else of_nat (55 + d))"

definition percentEscape :: "nat \<Rightarrow> jsstring" where
  "percentEscape B = [0x25, upperHexDigit (B div 16), upperHexDigit (B mod 16)]"

definition escapeCodePoint :: "nat \<Rightarrow> jsstring" where
  "escapeCodePoint V = concat (map percentEscape (utf8Encode V))"

text \<open>
  ECMAScript \<open>Encode\<close> with no extra unescaped characters; an unpaired surrogate throws
  a \<open>URIError\<close>.
\<close>

fun encodeURIComponent :: "jsstring \<Rightarrow> js_exception + jsstring" where
  "encodeURIComponent [] = Inr []"
| "encodeURIComponent (C # s) =
     (if isUnescaped C then
        (case encodeURIComponent s of Inl e \<Rightarrow> Inl e | Inr R \<Rightarrow> Inr (C # R))
      else if isTrailingSurrogate C then Inl URIError
      else if isLeadingSurrogate C then
        (case s of
           [] \<Rightarrow> Inl URIError
         | D # rest \<Rightarrow>
             if isTrailingSurrogate D then
               (case encodeURIComponent rest of
                  Inl e \<Rightarrow> Inl e
                | Inr R \<Rightarrow>
                    Inr (escapeCodePoint
                           ((unat C - 0xD800) * 1024 + (unat D - 0xDC00) + 0x10000) @ R))
             else Inl URIError)
      else
        (case encodeURIComponent s of
           Inl e \<Rightarrow> Inl e
         | Inr R \<Rightarrow> Inr (escapeCodePoint (unat C) @ R)))"

subsection \<open>The match of \<open>/filename="?([^";\n]+)"?/\<close>\<close>

definition notDelimiter :: "code_unit \<Rightarrow> bool" where
  "notDelimiter c = (c \<noteq> 0x22 \<and> c \<noteq> 0x3B \<and> c \<noteq> 0x0A)"

text \<open>
  The match anchored at the start of \<open>s\<close>, as its capture group 1: the literal
  \<open>filename=\<close>, an optional double quote, then the longest non-empty run of code units
  other than \<open>"\<close>, \<open>;\<close> and line feed. When a quote follows \<open>filename=\<close> the run cannot
  start at the quote, so the quote is always consumed. The closing \<open>"?\<close> matches in
  every case.
\<close>

definition matchAt :: "jsstring \<Rightarrow> jsstring option" where
  "matchAt s =
     (let lit = js ''filename='' in
      if take (length lit) s = lit then
        (let r = drop (length lit) s;
             r' = (case r of c # t \<Rightarrow> if c = 0x22 then t else r | [] \<Rightarrow> r);
             capture = takeWhile notDelimiter r'
         in if capture = [] then None else Some capture)
      else None)"

text \<open>\<open>String.prototype.match\<close> without the global flag: the leftmost match.\<close>

fun filenameMatch :: "jsstring \<Rightarrow> jsstring option" where
  "filenameMatch [] = None"
| "filenameMatch (c # s) =
     (case matchAt (c # s) of
        Some capture \<Rightarrow> Some capture
      | None \<Rightarrow> filenameMatch s)"

text \<open>Template-literal rendering of a non-negative integer.\<close>

fun decimalString :: "nat \<Rightarrow> jsstring" where
  "decimalString n =
     (if n < 10 then [of_nat (48 + n)]
      else decimalString (n div 10) @ [of_nat (48 + n mod 10)])"

declare decimalString.simps [simp del]

section \<open>The data model (types.ts)\<close>

text \<open>
  \<open>this.config\<close> of a constructed client: \<open>apiKey\<close>, \<open>baseUrl\<close> and \<open>timeout\<close> are set,
  \<open>headers\<close> and \<open>debug\<close> may be \<open>undefined\<close> (\<open>None\<close>).
\<close>

record client_config =
  apiKey :: jsstring
  baseUrl :: jsstring
  timeout :: nat
  headers :: "(jsstring \<rightharpoonup> jsstring) option"
  debug :: "bool option"

record generate_options =
  custom_filename :: "jsstring option"

record generate_request =
  data :: "unknown option"
  options :: "generate_options option"

record generate_response =
  pdf :: "8 word list"
  filename :: jsstring
  generationTimeMs :: number
  contentLength :: number

subsection \<open>JSON values\<close>

text \<open>
  The body of a failure response is whatever JSON the server sent: \<open>APIErrorResponse\<close> is
  only the shape the source declares for it, and the cast to it checks nothing. A number
  is held as the string that \<open>ToString\<close> gives for it; an object is held as its members in
  the order of the text.
\<close>

datatype json =
    JNull
  | JBool bool
  | JNumber jsstring
  | JString jsstring
  | JArray "json list"
  | JObject "(jsstring \<times> json) list"

text \<open>
  Reading the property \<open>k\<close> of a value that is not \<open>null\<close>, for the names \<open>error\<close>,
  \<open>message\<close> and \<open>details\<close> that the client reads: an own member of an object (the last
  one of that name), and \<open>undefined\<close> (\<open>None\<close>) in every other case, since no boolean,
  number, string or array has a property of these names.
\<close>

fun field :: "json \<Rightarrow> jsstring \<Rightarrow> json option" where
  "field (JObject members) k = map_of (rev members) k"
| "field _ k = None"

definition TypeError_primitive :: js_exception where
  "TypeError_primitive =
     JsError (js ''TypeError'') (js ''Cannot convert object to primitive value'')"

text \<open>
  ECMAScript \<open>ToString\<close> on a JSON value. An array is joined with commas, \<open>null\<close> elements
  giving the empty string. An object gives \<open>[object Object]\<close> through the inherited
  \<open>toString\<close>, unless it has an own member \<open>toString\<close>: that member is no function, and
  neither an own \<open>valueOf\<close> nor the inherited one gives a primitive, so a \<open>TypeError\<close> is
  thrown.
\<close>

fun ToString :: "json \<Rightarrow> js_exception + jsstring"
  and joinElements :: "json list \<Rightarrow> js_exception + jsstring" where
  "ToString JNull = Inr (js ''null'')"
| "ToString (JBool b) = Inr (if b then js ''true'' else js ''false'')"
| "ToString (JNumber s) = Inr s"
| "ToString (JString s) = Inr s"
| "ToString (JArray xs) = joinElements xs"
| "ToString (JObject members) =
     (if map_of members (js ''toString'') = None then Inr (js ''[object Object]'')
      else Inl TypeError_primitive)"
| "joinElements [] = Inr []"
| "joinElements (x # xs) =
     (case (if x = JNull then Inr [] else ToString x) of
        Inl e \<Rightarrow> Inl e
      | Inr s \<Rightarrow>
          if xs = [] then Inr s
          else (case joinElements xs of Inl e \<Rightarrow> Inl e | Inr rest \<Rightarrow> Inr (s @ js '','' @ rest)))"

section \<open>The error classes (errors.ts)\<close>

datatype error_class =
    DocumentStackError | APIError | ValidationError | AuthenticationError | ForbiddenError
  | NotFoundError | RateLimitError | ServerError | TimeoutError | NetworkError

text \<open>
  An error object of the SDK: its class and its properties. A property the class does not
  have reads as \<open>undefined\<close>, which is \<open>None\<close>: \<open>TimeoutError\<close> and \<open>NetworkError\<close> extend
  \<open>DocumentStackError\<close> and have no \<open>statusCode\<close>, \<open>errorCode\<close> or \<open>details\<close>. \<open>errorCode\<close>
  and \<open>details\<close> hold what the body has under \<open>error\<close> and \<open>details\<close>, whatever its type.
\<close>

record sdk_error =
  cls :: error_class
  name :: jsstring
  message :: jsstring
  statusCode :: "nat option"
  errorCode :: "json option"
  details :: "json option"
  retryAfter :: "int option"
  cause :: "js_exception option"

text \<open>
  The constructors, each calling its \<open>super\<close> and then setting its own fields.
  \<open>DocumentStackError\<close> is given a string by \<open>TimeoutError\<close> and \<open>NetworkError\<close>.
\<close>

definition new_DocumentStackError :: "jsstring \<Rightarrow> sdk_error" where
  "new_DocumentStackError msg =
     \<lparr>cls = DocumentStackError, name = js ''DocumentStackError'', message = msg,
      statusCode = None, errorCode = None, details = None, retryAfter = None, cause = None\<rparr>"

text \<open>
  The \<open>TypeError\<close> of reading \<open>response.message\<close> when \<open>response\<close> is \<open>null\<close>.
\<close>

definition TypeError_null :: js_exception where
  "TypeError_null =
     JsError (js ''TypeError'')
       (js ''Cannot read properties of null (reading '' @ [0x27] @ js ''message'' @ [0x27] @
        js '')'')"

text \<open>
  The message that \<open>Error\<close> stores for its argument: \<open>ToString\<close> of it, which can throw;
  for \<open>undefined\<close> nothing is stored and the inherited empty message is read.
\<close>

definition errorMessage :: "json option \<Rightarrow> js_exception + jsstring" where
  "errorMessage arg = (case arg of None \<Rightarrow> Inr [] | Some v \<Rightarrow> ToString v)"

text \<open>
  \<open>new APIError(statusCode, response)\<close>: \<open>super(response.message)\<close> runs first and throws
  when \<open>response\<close> is \<open>null\<close> or the message has no string conversion; then the three
  fields are set.
\<close>

definition new_APIError :: "nat \<Rightarrow> json \<Rightarrow> js_exception + sdk_error" where
  "new_APIError code response =
     (if response = JNull then Inl TypeError_null
      else
        (case errorMessage (field response (js ''message'')) of
           Inl e \<Rightarrow> Inl e
         | Inr msg \<Rightarrow>
             Inr ((new_DocumentStackError msg)
                    \<lparr>cls := APIError, name := js ''APIError'', statusCode := Some code,
                     errorCode := field response (js ''error''),
                     details := field response (js ''details'')\<rparr>)))"

definition new_ValidationError :: "json \<Rightarrow> js_exception + sdk_error" where
  "new_ValidationError response =
     (case new_APIError 400 response of
        Inl e \<Rightarrow> Inl e
      | Inr err \<Rightarrow> Inr (err\<lparr>cls := ValidationError, name := js ''ValidationError''\<rparr>))"

definition new_AuthenticationError :: "json \<Rightarrow> js_exception + sdk_error" where
  "new_AuthenticationError response =
     (case new_APIError 401 response of
        Inl e \<Rightarrow> Inl e
      | Inr err \<Rightarrow> Inr (err\<lparr>cls := AuthenticationError, name := js ''AuthenticationError''\<rparr>))"

definition new_ForbiddenError :: "json \<Rightarrow> js_exception + sdk_error" where
  "new_ForbiddenError response =
     (case new_APIError 403 response of
        Inl e \<Rightarrow> Inl e
      | Inr err \<Rightarrow> Inr (err\<lparr>cls := ForbiddenError, name := js ''ForbiddenError''\<rparr>))"

definition new_NotFoundError :: "json \<Rightarrow> js_exception + sdk_error" where
  "new_NotFoundError response =
     (case new_APIError 404 response of
        Inl e \<Rightarrow> Inl e
      | Inr err \<Rightarrow> Inr (err\<lparr>cls := NotFoundError, name := js ''NotFoundError''\<rparr>))"

definition new_RateLimitError :: "json \<Rightarrow> int option \<Rightarrow> js_exception + sdk_error" where
  "new_RateLimitError response retry =
     (case new_APIError 429 response of
        Inl e \<Rightarrow> Inl e
      | Inr err \<Rightarrow>
          Inr (err\<lparr>cls := RateLimitError, name := js ''RateLimitError'', retryAfter := retry\<rparr>))"

definition new_ServerError :: "json \<Rightarrow> js_exception + sdk_error" where
  "new_ServerError response =
     (case new_APIError 500 response of
        Inl e \<Rightarrow> Inl e
      | Inr err \<Rightarrow> Inr (err\<lparr>cls := ServerError, name := js ''ServerError''\<rparr>))"

definition new_TimeoutError :: "nat \<Rightarrow> sdk_error" where
  "new_TimeoutError ms =
     (new_DocumentStackError (js ''Request timed out after '' @ decimalString ms @ js ''ms''))
       \<lparr>cls := TimeoutError, name := js ''TimeoutError''\<rparr>"

definition new_NetworkError :: "jsstring \<Rightarrow> js_exception option \<Rightarrow> sdk_error" where
  "new_NetworkError msg c =
     (new_DocumentStackError msg)
       \<lparr>cls := NetworkError, name := js ''NetworkError'', cause := c\<rparr>"

text \<open>\<open>error instanceof APIError\<close>: the class is \<open>APIError\<close> or one of its subclasses.\<close>

fun instanceofAPIError :: "error_class \<Rightarrow> bool" where
  "instanceofAPIError DocumentStackError = False"
| "instanceofAPIError TimeoutError = False"
| "instanceofAPIError NetworkError = False"
| "instanceofAPIError _ = True"

text \<open>What a call of \<open>generate\<close> can throw: an error of the SDK or an exception of the runtime.\<close>

datatype thrown = Sdk sdk_error | Js js_exception

text \<open>
  \<open>throw new C(...)\<close>: the error built, or the exception of its constructor.
\<close>

fun throwNew :: "js_exception + sdk_error \<Rightarrow> thrown" where
  "throwNew (Inl x) = Js x"
| "throwNew (Inr e) = Sdk e"

section \<open>The client (client.ts)\<close>

subsection \<open>The request, the response and the runtime\<close>

text \<open>The arguments of the one call of \<open>fetch\<close>.\<close>

record http_request =
  req_url :: jsstring
  req_method :: jsstring
  req_headers :: "jsstring \<rightharpoonup> jsstring"
  req_body :: jsstring

text \<open>
  What \<open>response.json()\<close> settles to: a rejection (the body is not JSON) or the JSON value
  parsed from the body.
\<close>

datatype json_result = JsonReject | JsonValue json

text \<open>
  A \<open>Response\<close>, by what \<open>generate\<close> reads of it. \<open>resp_headers\<close> is the \<open>get\<close> method of
  its \<open>Headers\<close> (\<open>None\<close> is \<open>null\<close>); \<open>json\<close> and \<open>arrayBuffer\<close> are what the two body
  readers settle to.
\<close>

record response =
  status :: nat
  statusText :: jsstring
  resp_headers :: "jsstring \<rightharpoonup> jsstring"
  json :: json_result
  arrayBuffer :: "js_exception + 8 word list"

text \<open>\<open>response.ok\<close>: the status is in the range 200 to 299.\<close>

definition ok :: "response \<Rightarrow> bool" where
  "ok resp = (200 \<le> status resp \<and> status resp \<le> 299)"

datatype fetch_outcome = Resolved response | Rejected js_exception

text \<open>
  The runtime around the client: \<open>fetch\<close>, which answers a request with a response or
  rejects (a transport failure, or the \<open>AbortError\<close> of the timeout's abort signal), and
  \<open>JSON.stringify\<close> on the object \<open>{data, options}\<close>, which can throw.
\<close>

record runtime =
  fetch :: "http_request \<Rightarrow> fetch_outcome"
  JSON_stringify :: "unknown option \<times> generate_options option \<Rightarrow> js_exception + jsstring"

text \<open>The records written by \<open>console.log\<close> when \<open>debug\<close> is set.\<close>

datatype log_entry =
    RequestLog jsstring "jsstring \<rightharpoonup> jsstring" jsstring
  | ResponseLog jsstring number number

text \<open>
  One call of \<open>generate\<close>: what it returns or throws, the calls of \<open>fetch\<close> it made and
  what it logged.
\<close>

record generate_run =
  outcome :: "thrown + generate_response"
  fetch_calls :: "http_request list"
  logged :: "log_entry list"

subsection \<open>The constructor\<close>

definition DEFAULT_BASE_URL :: jsstring where
  "DEFAULT_BASE_URL = js ''https://api.documentstack.dev''"

definition DEFAULT_TIMEOUT :: nat where
  "DEFAULT_TIMEOUT = 30000"

text \<open>\<open>replace(/\/$/, "")\<close>: one slash at the very end of the string is removed.\<close>

definition stripTrailingSlash :: "jsstring \<Rightarrow> jsstring" where
  "stripTrailingSlash s = (if s \<noteq> [] \<and> last s = 0x2F then butlast s else s)"

text \<open>
  \<open>new DocumentStack({apiKey, baseUrl, timeout, headers, debug})\<close>, every field but the
  first optional: the \<open>Error\<close> thrown for an empty key, or \<open>this.config\<close>.
\<close>

definition new_DocumentStack ::
  "jsstring \<Rightarrow> jsstring option \<Rightarrow> nat option \<Rightarrow> (jsstring \<rightharpoonup> jsstring) option \<Rightarrow> bool option \<Rightarrow>
     js_exception + client_config" where
  "new_DocumentStack key url ms hdrs dbg =
     (if key = [] then Inl (JsError (js ''Error'') (js ''API key is required''))
      else
        Inr \<lparr>apiKey = key,
             baseUrl = string_or (map_option stripTrailingSlash url) DEFAULT_BASE_URL,
             timeout = (case ms of None \<Rightarrow> DEFAULT_TIMEOUT | Some n \<Rightarrow> n),
             headers = hdrs, debug = dbg\<rparr>)"

subsection \<open>\<open>createError\<close>\<close>

text \<open>\<open>new C(response)\<close> for the class \<open>C\<close> of the status; the constructor can throw.\<close>

definition createError ::
  "nat \<Rightarrow> json \<Rightarrow> (jsstring \<rightharpoonup> jsstring) \<Rightarrow> js_exception + sdk_error" where
  "createError code response hdrs =
     (if code = 400 then new_ValidationError response
      else if code = 401 then new_AuthenticationError response
      else if code = 403 then new_ForbiddenError response
      else if code = 404 then new_NotFoundError response
      else if code = 429 then
        new_RateLimitError response
          (number_or_undefined (parseInt10 (string_or (hdrs (js ''Retry-After'')) [])))
      else new_ServerError response)"

subsection \<open>\<open>generate\<close>\<close>

text \<open>The object that replaces a body that is not JSON.\<close>

definition fallbackBody :: "jsstring \<Rightarrow> json" where
  "fallbackBody text =
     JObject [(js ''error'', JString (js ''Unknown Error'')), (js ''message'', JString text)]"

text \<open>The body of the \<open>try\<close> block after \<open>fetch\<close> has resolved, with what it logs.\<close>

definition tryResponse ::
  "client_config \<Rightarrow> response \<Rightarrow> (thrown + generate_response) \<times> log_entry list" where
  "tryResponse cfg resp =
     (if \<not> ok resp then
        (let errorBody =
               (case json resp of
                  JsonReject \<Rightarrow> fallbackBody (statusText resp)
                | JsonValue v \<Rightarrow> v)
         in (Inl (throwNew (createError (status resp) errorBody (resp_headers resp))), []))
      else
        (case arrayBuffer resp of
           Inl e \<Rightarrow> (Inl (Js e), [])
         | Inr buf \<Rightarrow>
             (let contentDisposition =
                    string_or (resp_headers resp (js ''Content-Disposition'')) [];
                  generationTime =
                    parseInt10 (string_or (resp_headers resp (js ''X-Generation-Time-Ms'')) (js ''0''));
                  contentLen =
                    parseInt10 (string_or (resp_headers resp (js ''Content-Length'')) (js ''0''));
                  fname = string_or (filenameMatch contentDisposition) (js ''document.pdf'');
                  lg = (if debug cfg = Some True
                        then [ResponseLog fname generationTime contentLen] else [])
              in case decodeURIComponent fname of
                   Inl e \<Rightarrow> (Inl (Js e), lg)
                 | Inr decoded \<Rightarrow>
                     (Inr \<lparr>pdf = buf, filename = decoded, generationTimeMs = generationTime,
                           contentLength =
                             (if truthy_number contentLen then contentLen
                              else Num (int (length buf)))\<rparr>,
                      lg))))"

text \<open>
  The \<open>catch\<close> block: an \<open>APIError\<close> is thrown again as it is; any other \<open>Error\<close> becomes
  a \<open>TimeoutError\<close> when its name is \<open>AbortError\<close> and a \<open>NetworkError\<close> otherwise; a thrown
  value that is no \<open>Error\<close> becomes the unknown \<open>NetworkError\<close>.
\<close>

definition wrapError :: "client_config \<Rightarrow> jsstring \<Rightarrow> jsstring \<Rightarrow> thrown" where
  "wrapError cfg n m =
     (if n = js ''AbortError'' then Sdk (new_TimeoutError (timeout cfg))
      else Sdk (new_NetworkError (js ''Network request failed: '' @ m) (Some (JsError n m))))"

fun catchBlock :: "client_config \<Rightarrow> thrown \<Rightarrow> thrown" where
  "catchBlock cfg (Sdk e) =
     (if instanceofAPIError (cls e) then Sdk e else wrapError cfg (name e) (message e))"
| "catchBlock cfg (Js (JsError n m)) = wrapError cfg n m"
| "catchBlock cfg (Js JsNonError) = Sdk (new_NetworkError (js ''Unknown network error'') None)"

text \<open>The entries that the spread \<open>...obj\<close> contributes: none when \<open>obj\<close> is \<open>undefined\<close>.\<close>

definition spread :: "(jsstring \<rightharpoonup> jsstring) option \<Rightarrow> (jsstring \<rightharpoonup> jsstring)" where
  "spread obj = (case obj of None \<Rightarrow> Map.empty | Some h \<Rightarrow> h)"

text \<open>
  The headers object of the request: the two fixed entries, then the spread of
  \<open>this.config.headers\<close>, whose entries replace those of the same key.
\<close>

definition requestHeaders :: "client_config \<Rightarrow> (jsstring \<rightharpoonup> jsstring)" where
  "requestHeaders cfg =
     [js ''Content-Type'' \<mapsto> js ''application/json'',
      js ''Authorization'' \<mapsto> js ''Bearer '' @ apiKey cfg]
     ++ spread (headers cfg)"

definition generate ::
  "runtime \<Rightarrow> client_config \<Rightarrow> jsstring \<Rightarrow> generate_request \<Rightarrow> generate_run" where
  "generate rt cfg templateId request =
     (if templateId = [] then
        \<lparr>outcome =
           Inl (throwNew (new_ValidationError
                  (JObject [(js ''error'', JString (js ''Bad Request'')),
                            (js ''message'', JString (js ''Template ID is required''))]))),
         fetch_calls = [], logged = []\<rparr>
      else
        (case encodeURIComponent templateId of
           Inl e \<Rightarrow> \<lparr>outcome = Inl (Js e), fetch_calls = [], logged = []\<rparr>
         | Inr segment \<Rightarrow>
             (let url = baseUrl cfg @ js ''/api/v1/generate/'' @ segment;
                  hdrs = requestHeaders cfg
              in case JSON_stringify rt (data request, options request) of
                   Inl e \<Rightarrow> \<lparr>outcome = Inl (Js e), fetch_calls = [], logged = []\<rparr>
                 | Inr body \<Rightarrow>
                     (let lg = (if debug cfg = Some True
                                then [RequestLog url
                                        (hdrs(js ''Authorization'' \<mapsto> js ''Bearer ***'')) body]
                                else []);
                          rq = \<lparr>req_url = url, req_method = js ''POST'', req_headers = hdrs,
                                req_body = body\<rparr>
                      in case fetch rt rq of
                           Rejected e \<Rightarrow>
                             \<lparr>outcome = Inl (catchBlock cfg (Js e)), fetch_calls = [rq],
                              logged = lg\<rparr>
                         | Resolved resp \<Rightarrow>
                             (case tryResponse cfg resp of
                                (Inl e, lg') \<Rightarrow>
                                  \<lparr>outcome = Inl (catchBlock cfg e), fetch_calls = [rq],
                                   logged = lg @ lg'\<rparr>
                              | (Inr result, lg') \<Rightarrow>
                                  \<lparr>outcome = Inr result, fetch_calls = [rq],
                                   logged = lg @ lg'\<rparr>)))))"

subsection \<open>Concrete calls\<close>

text \<open>
  A client as the constructor builds it from \<open>{apiKey: "key"}\<close>, the empty request, and a
  runtime whose \<open>fetch\<close> settles every call the same way.
\<close>

definition example_config :: client_config where
  "example_config =
     \<lparr>apiKey = js ''key'', baseUrl = js ''https://api.documentstack.dev'', timeout = 30000,
      headers = None, debug = None\<rparr>"

definition example_request :: generate_request where
  "example_request = \<lparr>data = None, options = None\<rparr>"

definition answering :: "fetch_outcome \<Rightarrow> runtime" where
  "answering out = \<lparr>fetch = (\<lambda>rq. out), JSON_stringify = (\<lambda>obj. Inr (js ''{}''))\<rparr>"

text \<open>The request that \<open>generate\<close> issues for the template id \<open>tpl\<close>.\<close>

definition example_call :: "client_config \<Rightarrow> http_request" where
  "example_call cfg =
     \<lparr>req_url = baseUrl cfg @ js ''/api/v1/generate/tpl'', req_method = js ''POST'',
      req_headers = requestHeaders cfg, req_body = js ''{}''\<rparr>"

text \<open>A client configured with an extra header under the key \<open>Authorization\<close>.\<close>

definition overriding_config :: client_config where
  "overriding_config =
     example_config\<lparr>headers := Some [js ''Authorization'' \<mapsto> js ''Bearer other'']\<rparr>"

text \<open>Responses with status \<open>code\<close>, the given headers and body, and four body octets.\<close>

definition example_response ::
  "nat \<Rightarrow> jsstring \<Rightarrow> (jsstring \<rightharpoonup> jsstring) \<Rightarrow> json_result \<Rightarrow> response" where
  "example_response code text hdrs body =
     \<lparr>status = code, statusText = text, resp_headers = hdrs, json = body,
      arrayBuffer = Inr [0x25, 0x50, 0x44, 0x46]\<rparr>"




text \<open>
  A body whose \<open>message\<close> is an object with an own member \<open>toString\<close>, in a response with
  status 500.
\<close>

definition opaque_message_body :: json where
  "opaque_message_body =
     JObject [(js ''message'', JObject [(js ''toString'', JNumber (js ''0''))])]"

definition opaque_message_response :: response where
  "opaque_message_response =
     example_response 500 (js ''Internal Server Error'') Map.empty
       (JsonValue opaque_message_body)"


text \<open>What \<open>fetch\<close> rejects with when the timeout aborts it, and when the transport fails.\<close>


definition abort_error :: js_exception where
  "abort_error = JsError (js ''AbortError'') (js ''This operation was aborted'')"

definition fetch_failed :: js_exception where
  "fetch_failed = JsError (js ''TypeError'') (js ''fetch failed'')"

text \<open>The four octets of the example responses' bodies.\<close>

definition pdf_octets :: "8 word list" where
  "pdf_octets = [0x25, 0x50, 0x44, 0x46]"

text \<open>A success response whose \<open>X-Generation-Time-Ms\<close> header is not a number.\<close>

definition unparsable_time_response :: response where
  "unparsable_time_response =
     example_response 200 (js ''OK'') [js ''X-Generation-Time-Ms'' \<mapsto> js ''n/a''] JsonReject"

text \<open>A 429 response with the header \<open>Retry-After: 0\<close>.\<close>

definition throttle_body :: json where
  "throttle_body =
     JObject [(js ''error'', JString (js ''rate_limited'')),
              (js ''message'', JString (js ''slow down''))]"

definition retry_now_response :: response where
  "retry_now_response =
     example_response 429 (js ''Too Many Requests'') [js ''Retry-After'' \<mapsto> js ''0'']
       (JsonValue throttle_body)"

text \<open>The error object that \<open>new RateLimitError\<close> builds from that body and \<open>undefined\<close>.\<close>

definition retry_now_error :: sdk_error where
  "retry_now_error =
     \<lparr>cls = RateLimitError, name = js ''RateLimitError'', message = js ''slow down'',
      statusCode = Some 429, errorCode = Some (JString (js ''rate_limited'')), details = None,
      retryAfter = None, cause = None\<rparr>"

text \<open>The header value \<open>attachment; filename="f"\<close>.\<close>

definition quoted_filename :: "string \<Rightarrow> jsstring" where
  "quoted_filename f = js ''attachment; filename='' @ [0x22] @ js f @ [0x22]"

text \<open>A success response whose file name is a lone percent sign.\<close>

definition percent_response :: response where
  "percent_response =
     example_response 200 (js ''OK'') [js ''Content-Disposition'' \<mapsto> quoted_filename ''%'']
       JsonReject"

text \<open>A success response with the three metadata headers, and one with none.\<close>

definition full_response :: response where
  "full_response =
     example_response 200 (js ''OK'')
       [js ''Content-Disposition'' \<mapsto> quoted_filename ''x.pdf'',
        js ''X-Generation-Time-Ms'' \<mapsto> js ''42'',
        js ''Content-Length'' \<mapsto> js ''100'']
       JsonReject"

definition bare_response :: response where
  "bare_response = example_response 200 (js ''OK'') Map.empty JsonReject"

section \<open>Properties of \<open>generate\<close>\<close>

subsection \<open>From the call of \<open>fetch\<close> to the outcome\<close>

lemma generate_resolved:
  assumes "fetch_calls (generate rt cfg t r) = [rq]" and "fetch rt rq = Resolved resp"
  shows "outcome (generate rt cfg t r) =
           (case fst (tryResponse cfg resp) of
              Inl e \<Rightarrow> Inl (catchBlock cfg e)
            | Inr x \<Rightarrow> Inr x)"
  using assms
  by (auto simp: generate_def Let_def
      split: if_splits sum.splits fetch_outcome.splits prod.splits)

lemma generate_rejected:
  assumes "fetch_calls (generate rt cfg t r) = [rq]" and "fetch rt rq = Rejected e"
  shows "outcome (generate rt cfg t r) = Inl (catchBlock cfg (Js e))"
  using assms
  by (auto simp: generate_def Let_def
      split: if_splits sum.splits fetch_outcome.splits prod.splits)

lemma generate_request_headers:
  assumes "fetch_calls (generate rt cfg t r) = [rq]"
  shows "req_headers rq = requestHeaders cfg"
  using assms
  by (auto simp: generate_def Let_def
      split: if_splits sum.splits fetch_outcome.splits prod.splits)

text \<open>
  \<open>fetch\<close> is called once, with the request built from the configuration, as soon as the
  template id is not empty and neither \<open>encodeURIComponent\<close> nor \<open>JSON.stringify\<close> throws;
  otherwise it is not called at all.
\<close>

lemma generate_issues_one_request:
  assumes "t \<noteq> []" and "encodeURIComponent t = Inr segment"
    and "JSON_stringify rt (data r, options r) = Inr body"
  shows "fetch_calls (generate rt cfg t r) =
           [\<lparr>req_url = baseUrl cfg @ js ''/api/v1/generate/'' @ segment, req_method = js ''POST'',
             req_headers = requestHeaders cfg, req_body = body\<rparr>]"
  using assms
  by (simp add: generate_def Let_def split: fetch_outcome.splits prod.splits sum.splits)

lemma generate_at_most_one_request: "length (fetch_calls (generate rt cfg t r)) \<le> 1"
  by (simp add: generate_def Let_def split: fetch_outcome.splits prod.splits sum.splits)

lemma generate_no_request:
  assumes "t = [] \<or> encodeURIComponent t = Inl x \<or> JSON_stringify rt (data r, options r) = Inl y"
  shows "fetch_calls (generate rt cfg t r) = []"
  using assms
  by (auto simp: generate_def Let_def split: fetch_outcome.splits prod.splits sum.splits)

lemma example_config_constructed:
  "new_DocumentStack (js ''key'') None None None None = Inr example_config"
  by (simp add: new_DocumentStack_def example_config_def DEFAULT_BASE_URL_def
      DEFAULT_TIMEOUT_def) (simp add: js_def)

lemma encode_tpl: "encodeURIComponent (js ''tpl'') = Inr (js ''tpl'')"
  by (simp add: js_def isUnescaped_def)

lemma tpl_not_empty: "js ''tpl'' \<noteq> []"
  by (simp add: js_def)

lemma url_tpl: "js ''/api/v1/generate/'' @ js ''tpl'' = js ''/api/v1/generate/tpl''"
  by (simp add: js_def)

lemma example_fetch_calls:
  "fetch_calls (generate (answering out) cfg (js ''tpl'') example_request) = [example_call cfg]"
  by (simp add: generate_def encode_tpl tpl_not_empty url_tpl answering_def example_request_def
      example_call_def Let_def split: fetch_outcome.splits prod.splits sum.splits)

lemma example_fetch: "fetch (answering out) rq = out"
  by (simp add: answering_def)

lemma example_stringify: "JSON_stringify (answering out) obj = Inr (js ''{}'')"
  by (simp add: answering_def)

lemma header_names_differ: "js ''Content-Type'' \<noteq> js ''Authorization''"
  by (simp add: js_def)

subsection \<open>The fields of the error objects\<close>

lemma statusCode_simps:
  "statusCode (new_TimeoutError ms) = None"
  "statusCode (new_NetworkError m c) = None"
  by (simp_all add: new_TimeoutError_def new_NetworkError_def new_DocumentStackError_def)

lemma cls_simps:
  "cls (new_TimeoutError ms) = TimeoutError"
  "cls (new_NetworkError m c) = NetworkError"
  by (simp_all add: new_TimeoutError_def new_NetworkError_def new_DocumentStackError_def)

text \<open>What an \<open>APIError\<close> holds once its constructor has returned.\<close>

lemma new_APIError_fields:
  assumes "new_APIError code b = Inr e"
  shows "cls e = APIError \<and> statusCode e = Some code \<and>
         errorMessage (field b (js ''message'')) = Inr (message e) \<and>
         errorCode e = field b (js ''error'') \<and> details e = field b (js ''details'') \<and>
         retryAfter e = None \<and> b \<noteq> JNull"
  using assms
  by (auto simp: new_APIError_def new_DocumentStackError_def split: if_splits sum.splits)

lemma new_APIError_returns:
  assumes "b \<noteq> JNull" and "errorMessage (field b (js ''message'')) = Inr m"
  shows "\<exists>e. new_APIError code b = Inr e"
  using assms by (simp add: new_APIError_def)

lemma createError_fields:
  assumes "createError code b h = Inr e"
  shows "cls e =
           (if code = 400 then ValidationError
            else if code = 401 then AuthenticationError
            else if code = 403 then ForbiddenError
            else if code = 404 then NotFoundError
            else if code = 429 then RateLimitError
            else ServerError) \<and>
         statusCode e =
           Some (if code = 400 \<or> code = 401 \<or> code = 403 \<or> code = 404 \<or> code = 429
                 then code else 500) \<and>
         errorMessage (field b (js ''message'')) = Inr (message e) \<and>
         errorCode e = field b (js ''error'') \<and> b \<noteq> JNull"
  using assms
  by (auto simp: createError_def new_ValidationError_def new_AuthenticationError_def
      new_ForbiddenError_def new_NotFoundError_def new_RateLimitError_def new_ServerError_def
      dest!: new_APIError_fields split: if_splits sum.splits)

lemma createError_returns:
  assumes "b \<noteq> JNull" and "errorMessage (field b (js ''message'')) = Inr m"
  shows "\<exists>e. createError code b h = Inr e"
  using new_APIError_returns [OF assms]
  by (auto simp: createError_def new_ValidationError_def new_AuthenticationError_def
      new_ForbiddenError_def new_NotFoundError_def new_RateLimitError_def new_ServerError_def
      split: sum.splits) (metis sum.distinct(1))+

lemma createError_api:
  "createError c b h = Inr e \<Longrightarrow> instanceofAPIError (cls e) \<and> (\<exists>n. statusCode e = Some n)"
  by (drule createError_fields) (auto split: if_splits)

lemma member_names:
  "js ''error'' \<noteq> js ''message''" "js ''message'' \<noteq> js ''error''"
  "js ''details'' \<noteq> js ''message''" "js ''details'' \<noteq> js ''error''"
  "js ''toString'' \<noteq> js ''message''"
  by (simp_all add: js_def)

text \<open>The members of an object literal \<open>{error: a, message: b}\<close>.\<close>

lemma error_message_object:
  "field (JObject [(js ''error'', a), (js ''message'', b)]) (js ''message'') = Some b"
  "field (JObject [(js ''error'', a), (js ''message'', b)]) (js ''error'') = Some a"
  "field (JObject [(js ''error'', a), (js ''message'', b)]) (js ''details'') = None"
  by (simp_all add: member_names)

lemma createError_error_message_object:
  "createError code (JObject [(js ''error'', a), (js ''message'', JString m)]) h =
     Inr \<lparr>cls =
            (if code = 400 then ValidationError
             else if code = 401 then AuthenticationError
             else if code = 403 then ForbiddenError
             else if code = 404 then NotFoundError
             else if code = 429 then RateLimitError
             else ServerError),
          name =
            (if code = 400 then js ''ValidationError''
             else if code = 401 then js ''AuthenticationError''
             else if code = 403 then js ''ForbiddenError''
             else if code = 404 then js ''NotFoundError''
             else if code = 429 then js ''RateLimitError''
             else js ''ServerError''),
          message = m,
          statusCode =
            Some (if code = 400 \<or> code = 401 \<or> code = 403 \<or> code = 404 \<or> code = 429
                  then code else 500),
          errorCode = Some a, details = None,
          retryAfter =
            (if code = 429
             then number_or_undefined (parseInt10 (string_or (h (js ''Retry-After'')) []))
             else None),
          cause = None\<rparr>"
  by (simp add: createError_def new_ValidationError_def new_AuthenticationError_def
      new_ForbiddenError_def new_NotFoundError_def new_RateLimitError_def new_ServerError_def
      new_APIError_def new_DocumentStackError_def errorMessage_def error_message_object
      del: field.simps)

subsection \<open>Failure responses\<close>

lemma generate_failure_response:
  assumes calls: "fetch_calls (generate rt cfg t r) = [rq]"
    and res: "fetch rt rq = Resolved resp"
    and nok: "\<not> ok resp"
  shows "outcome (generate rt cfg t r) =
           Inl (catchBlock cfg
                  (throwNew
                     (createError (status resp)
                        (case json resp of
                           JsonReject \<Rightarrow> fallbackBody (statusText resp)
                         | JsonValue v \<Rightarrow> v)
                        (resp_headers resp))))"
  using generate_resolved [OF calls res] nok
  by (simp add: tryResponse_def Let_def)

lemma catchBlock_api: "instanceofAPIError (cls e) \<Longrightarrow> catchBlock cfg (Sdk e) = Sdk e"
  by simp

lemma wrapError_transport:
  "\<exists>e. wrapError cfg n m = Sdk e \<and> (cls e = TimeoutError \<or> cls e = NetworkError) \<and>
         statusCode e = None"
  by (simp add: wrapError_def cls_simps statusCode_simps)

lemma catchBlock_cases:
  assumes "catchBlock cfg x = Sdk e"
  shows "(x = Sdk e \<and> instanceofAPIError (cls e)) \<or>
         ((cls e = TimeoutError \<or> cls e = NetworkError) \<and> statusCode e = None)"
proof (cases x)
  case (Sdk e')
  then show ?thesis
    using assms wrapError_transport [of cfg "name e'" "message e'"] by (auto split: if_splits)
next
  case (Js y)
  then show ?thesis
    using assms wrapError_transport [of cfg "ename y" "emessage y"]
    by (cases y) (auto simp: cls_simps statusCode_simps)
qed


lemma generate_failure_raises:
  assumes calls: "fetch_calls (generate rt cfg t r) = [rq]"
    and res: "fetch rt rq = Resolved resp"
    and nok: "\<not> ok resp"
    and err: "createError (status resp)
           (case json resp of JsonReject \<Rightarrow> fallbackBody (statusText resp) | JsonValue v \<Rightarrow> v)
           (resp_headers resp) = Inr e"
  shows "outcome (generate rt cfg t r) = Inl (Sdk e)"
  using generate_failure_response [OF calls res nok] err createError_api [OF err]
  by simp

text \<open>
  A failure response whose body is \<open>null\<close>, or whose \<open>message\<close> has no string conversion,
  is not thrown as an \<open>APIError\<close>: the constructor throws a \<open>TypeError\<close>, which the \<open>catch\<close>
  block wraps.
\<close>

lemma type_error_not_abort: "js ''TypeError'' \<noteq> js ''AbortError''"
  by (simp add: js_def)

lemma generate_null_body:
  assumes calls: "fetch_calls (generate rt cfg t r) = [rq]"
    and res: "fetch rt rq = Resolved resp"
    and nok: "\<not> ok resp"
    and null: "json resp = JsonValue JNull"
  shows "outcome (generate rt cfg t r) =
           Inl (Sdk (new_NetworkError
                       (js ''Network request failed: '' @ emessage TypeError_null)
                       (Some TypeError_null)))"
proof -
  have "createError (status resp) JNull (resp_headers resp) = Inl TypeError_null"
    by (simp add: createError_def new_ValidationError_def new_AuthenticationError_def
      new_ForbiddenError_def new_NotFoundError_def new_RateLimitError_def new_ServerError_def
      new_APIError_def)
  then show ?thesis
    using generate_failure_response [OF calls res nok] null
    by (simp add: TypeError_null_def wrapError_def type_error_not_abort)
qed

lemma generate_unconvertible_message:
  "outcome
     (generate (answering (Resolved opaque_message_response)) example_config (js ''tpl'')
        example_request) =
     Inl (Sdk (new_NetworkError
                 (js ''Network request failed: '' @
                  js ''Cannot convert object to primitive value'')
                 (Some TypeError_primitive)))"
proof -
  have s: "status opaque_message_response = 500"
    and j: "json opaque_message_response = JsonValue opaque_message_body"
    by (simp_all add: opaque_message_response_def example_response_def)
  have nok: "\<not> ok opaque_message_response"
    by (simp add: ok_def s)
  have "createError 500 opaque_message_body h = Inl TypeError_primitive" for h
    by (simp add: createError_def new_ServerError_def new_APIError_def errorMessage_def
        opaque_message_body_def)
  then show ?thesis
    using generate_failure_response [OF example_fetch_calls example_fetch nok,
        where cfg = example_config] s j
    by (simp add: TypeError_primitive_def wrapError_def type_error_not_abort)
qed






subsection \<open>The request headers\<close>

text \<open>
  Claim C2, as stated, fails: a caller-supplied header under the key \<open>Authorization\<close> is
  the one sent, not the fixed \<open>Bearer\<close> header built from the API key.
\<close>

theorem caller_header_replaces_fixed:
  "fetch_calls
     (generate (answering (Rejected JsNonError)) overriding_config (js ''tpl'') example_request) =
     [example_call overriding_config] \<and>
   req_headers (example_call overriding_config) (js ''Authorization'') =
     Some (js ''Bearer other'') \<and>
   js ''Bearer other'' \<noteq> js ''Bearer '' @ apiKey overriding_config"
  by (simp add: example_fetch_calls example_call_def requestHeaders_def overriding_config_def
      example_config_def spread_def) (simp add: js_def)

text \<open>
  Claim C2, amended: in the request that \<open>generate\<close> issues, every caller-supplied extra
  header is sent with the caller's value, also under the keys \<open>Content-Type\<close> and
  \<open>Authorization\<close>; a fixed header keeps its value only when the caller supplies no header
  under its key.
\<close>

theorem caller_headers_take_precedence:
  assumes "fetch_calls (generate rt cfg t r) = [rq]"
  shows "(\<forall>k v. spread (headers cfg) k = Some v \<longrightarrow> req_headers rq k = Some v) \<and>
         (spread (headers cfg) (js ''Content-Type'') = None \<longrightarrow>
            req_headers rq (js ''Content-Type'') = Some (js ''application/json'')) \<and>
         (spread (headers cfg) (js ''Authorization'') = None \<longrightarrow>
            req_headers rq (js ''Authorization'') = Some (js ''Bearer '' @ apiKey cfg))"
proof -
  have h: "req_headers rq = requestHeaders cfg"
    using assms by (rule generate_request_headers)
  show ?thesis
    unfolding h requestHeaders_def
    by (simp add: map_add_Some_iff map_add_def header_names_differ)
qed

theorem caller_headers_take_precedence_witness:
  "fetch_calls
     (generate (answering (Rejected JsNonError)) overriding_config (js ''tpl'') example_request) =
     [example_call overriding_config] \<and>
   req_headers (example_call overriding_config) (js ''Authorization'') =
     Some (js ''Bearer other'') \<and>
   req_headers (example_call overriding_config) (js ''Content-Type'') =
     Some (js ''application/json'')"
proof -
  have calls:
    "fetch_calls
       (generate (answering (Rejected JsNonError)) overriding_config (js ''tpl'')
          example_request) = [example_call overriding_config]"
    by (rule example_fetch_calls)
  have a: "spread (headers overriding_config) (js ''Authorization'') = Some (js ''Bearer other'')"
    by (simp add: overriding_config_def spread_def)
  have c: "spread (headers overriding_config) (js ''Content-Type'') = None"
    by (simp add: overriding_config_def header_names_differ spread_def)
  from caller_headers_take_precedence [OF calls] a c calls show ?thesis
    by blast
qed

subsection \<open>The empty template id\<close>

text \<open>
  Claim C8: a call of \<open>generate\<close> with the empty template id throws a \<open>ValidationError\<close>
  (an error of the SDK with status code 400, not the plain \<open>Error\<close> of the constructor)
  and makes no call of \<open>fetch\<close>.
\<close>

theorem generate_empty_templateId:
  "\<exists>e. outcome (generate rt cfg [] request) = Inl (Sdk e) \<and> cls e = ValidationError \<and>
       statusCode e = Some 400 \<and> message e = js ''Template ID is required'' \<and>
       fetch_calls (generate rt cfg [] request) = []"
  using createError_error_message_object
    [of 400 "JString (js ''Bad Request'')" "js ''Template ID is required''" Map.empty]
  by (simp add: generate_def createError_def)

subsection \<open>The debug flag\<close>

lemma tryResponse_debug:
  "fst (tryResponse (cfg\<lparr>debug := d\<rparr>) resp) = fst (tryResponse cfg resp)"
  by (simp add: tryResponse_def Let_def split: sum.splits)

lemma catchBlock_debug: "catchBlock (cfg\<lparr>debug := d\<rparr>) e = catchBlock cfg e"
  by (cases "(cfg, e)" rule: catchBlock.cases) (simp_all add: wrapError_def)

lemma requestHeaders_debug: "requestHeaders (cfg\<lparr>debug := d\<rparr>) = requestHeaders cfg"
  by (simp add: requestHeaders_def)

lemma generate_debug_cfg:
  "outcome (generate rt (cfg\<lparr>debug := d\<rparr>) t r) = outcome (generate rt cfg t r) \<and>
   fetch_calls (generate rt (cfg\<lparr>debug := d\<rparr>) t r) = fetch_calls (generate rt cfg t r)"
proof (cases "fetch_calls (generate rt cfg t r)")
  case Nil
  then show ?thesis
    by (auto simp: generate_def Let_def requestHeaders_debug
        split: if_splits sum.splits fetch_outcome.splits prod.splits)
next
  case (Cons rq rqs)
  then have calls: "fetch_calls (generate rt cfg t r) = [rq]"
    by (auto simp: generate_def Let_def
        split: if_splits sum.splits fetch_outcome.splits prod.splits)
  have calls': "fetch_calls (generate rt (cfg\<lparr>debug := d\<rparr>) t r) = [rq]"
    using calls
    by (auto simp: generate_def Let_def requestHeaders_debug
        split: if_splits sum.splits fetch_outcome.splits prod.splits)
  show ?thesis
  proof (cases "fetch rt rq")
    case (Resolved resp)
    show ?thesis
      using generate_resolved [OF calls Resolved] generate_resolved [OF calls' Resolved]
        calls calls'
      by (simp add: tryResponse_debug catchBlock_debug split: sum.splits)
  next
    case (Rejected e)
    show ?thesis
      using generate_rejected [OF calls Rejected] generate_rejected [OF calls' Rejected]
        calls calls'
      by (simp add: catchBlock_debug)
  qed
qed

text \<open>
  Claim C9: two calls of \<open>generate\<close> that differ only in the debug flag have the same
  outcome (the same result returned or the same error thrown) and make the same calls
  of \<open>fetch\<close>; only what is logged differs.
\<close>

theorem generate_debug_independent:
  "outcome (generate rt (cfg\<lparr>debug := d1\<rparr>) t r) =
     outcome (generate rt (cfg\<lparr>debug := d2\<rparr>) t r) \<and>
   fetch_calls (generate rt (cfg\<lparr>debug := d1\<rparr>) t r) =
     fetch_calls (generate rt (cfg\<lparr>debug := d2\<rparr>) t r)"
  using generate_debug_cfg [where d = d1] generate_debug_cfg [where d = d2] by simp

subsection \<open>The status code of a thrown error\<close>

lemma tryResponse_thrown_api:
  "fst (tryResponse cfg resp) = Inl (Sdk e) \<Longrightarrow>
     instanceofAPIError (cls e) \<and> (\<exists>n. statusCode e = Some n)"
proof -
  assume a: "fst (tryResponse cfg resp) = Inl (Sdk e)"
  have nok: "\<not> ok resp"
    using a by (auto simp: tryResponse_def Let_def split: if_splits sum.splits)
  with a have "throwNew (createError (status resp)
      (case json resp of JsonReject \<Rightarrow> fallbackBody (statusText resp) | JsonValue v \<Rightarrow> v)
      (resp_headers resp)) = Sdk e"
    by (simp add: tryResponse_def Let_def)
  then have "createError (status resp)
      (case json resp of JsonReject \<Rightarrow> fallbackBody (statusText resp) | JsonValue v \<Rightarrow> v)
      (resp_headers resp) = Inr e"
    by (cases "createError (status resp)
      (case json resp of JsonReject \<Rightarrow> fallbackBody (statusText resp) | JsonValue v \<Rightarrow> v)
      (resp_headers resp)") simp_all
  then show ?thesis
    by (rule createError_api)
qed

lemma generate_thrown_cases:
  assumes "outcome (generate rt cfg t r) = Inl (Sdk e)"
  shows "(instanceofAPIError (cls e) \<and> (\<exists>n. statusCode e = Some n)) \<or>
         ((cls e = TimeoutError \<or> cls e = NetworkError) \<and> statusCode e = None)"
proof (cases "fetch_calls (generate rt cfg t r)")
  case Nil
  then have "throwNew (createError 400
      (JObject [(js ''error'', JString (js ''Bad Request'')),
                (js ''message'', JString (js ''Template ID is required''))]) Map.empty) = Sdk e"
    using assms
    by (auto simp: generate_def Let_def createError_def
        split: if_splits sum.splits fetch_outcome.splits prod.splits)
  then show ?thesis
    by (auto simp: createError_error_message_object)
next
  case (Cons rq rqs)
  then have calls: "fetch_calls (generate rt cfg t r) = [rq]"
    by (auto simp: generate_def Let_def
        split: if_splits sum.splits fetch_outcome.splits prod.splits)
  show ?thesis
  proof (cases "fetch rt rq")
    case (Resolved resp)
    from generate_resolved [OF calls Resolved] assms
    obtain x where x: "fst (tryResponse cfg resp) = Inl x" and c: "catchBlock cfg x = Sdk e"
      by (auto split: sum.splits)
    from catchBlock_cases [OF c] x tryResponse_thrown_api [of cfg resp e]
    show ?thesis by auto
  next
    case (Rejected x)
    from generate_rejected [OF calls Rejected] assms
    have "catchBlock cfg (Js x) = Sdk e" by simp
    from catchBlock_cases [OF this] show ?thesis by auto
  qed
qed

text \<open>
  Claim C5, amended: every \<open>TimeoutError\<close> or \<open>NetworkError\<close> thrown by \<open>generate\<close> has no
  status code (the property is absent), and every \<open>APIError\<close> thrown by \<open>generate\<close> has one.
\<close>

theorem transport_errors_without_status:
  assumes "outcome (generate rt cfg t r) = Inl (Sdk e)"
  shows "(cls e = TimeoutError \<or> cls e = NetworkError \<longrightarrow> statusCode e = None) \<and>
         (instanceofAPIError (cls e) \<longrightarrow> (\<exists>n. statusCode e = Some n))"
  using generate_thrown_cases [OF assms] by auto

text \<open>
  Claim C5, as stated, fails: the \<open>TimeoutError\<close> thrown when \<open>fetch\<close> is aborted has no
  status code, where the claim gives it the status code 0.
\<close>

theorem timeout_error_has_no_status_code:
  "outcome
     (generate (answering (Rejected abort_error)) example_config (js ''tpl'') example_request) =
     Inl (Sdk (new_TimeoutError 30000)) \<and>
   cls (new_TimeoutError 30000) = TimeoutError \<and>
   statusCode (new_TimeoutError 30000) = None"
  using generate_rejected [OF example_fetch_calls example_fetch, of abort_error example_config]
  by (simp add: abort_error_def wrapError_def example_config_def cls_simps statusCode_simps)

theorem transport_errors_without_status_witness:
  "outcome
     (generate (answering (Rejected fetch_failed)) example_config (js ''tpl'') example_request) =
     Inl (Sdk (new_NetworkError (js ''Network request failed: '' @ js ''fetch failed'')
                 (Some fetch_failed))) \<and>
   cls (new_NetworkError (js ''Network request failed: '' @ js ''fetch failed'')
          (Some fetch_failed)) = NetworkError \<and>
   statusCode (new_NetworkError (js ''Network request failed: '' @ js ''fetch failed'')
          (Some fetch_failed)) = None"
proof -
  have o: "outcome
     (generate (answering (Rejected fetch_failed)) example_config (js ''tpl'') example_request) =
     Inl (Sdk (new_NetworkError (js ''Network request failed: '' @ js ''fetch failed'')
                 (Some fetch_failed)))"
    using generate_rejected [OF example_fetch_calls example_fetch, of fetch_failed example_config]
    by (simp add: fetch_failed_def wrapError_def type_error_not_abort)
  from transport_errors_without_status [OF o] o show ?thesis
    by (simp add: cls_simps)
qed

subsection \<open>The builtins on the inputs of the examples\<close>

lemma parseInt10_examples:
  "parseInt10 (js ''0'') = Num 0"
  "parseInt10 (js ''42'') = Num 42"
  "parseInt10 (js ''100'') = Num 100"
  "parseInt10 (js ''n/a'') = NaN"
  "parseInt10 [] = NaN"
  by (simp_all add: parseInt10_def js_def isWhiteSpace_def isDecimalDigit_def decimalValue_def)

lemma filenameMatch_examples:
  "filenameMatch [] = None"
  "filenameMatch (quoted_filename ''x.pdf'') = Some (js ''x.pdf'')"
  "filenameMatch (quoted_filename ''%'') = Some (js ''%'')"
  by (simp_all add: quoted_filename_def js_def matchAt_def notDelimiter_def)

lemma decodeURIComponent_examples:
  "decodeURIComponent (js ''x.pdf'') = Inr (js ''x.pdf'')"
  "decodeURIComponent (js ''document.pdf'') = Inr (js ''document.pdf'')"
  "decodeURIComponent (js ''%'') = Inl URIError"
  by (simp_all add: js_def)

lemma response_header_names:
  "js ''Content-Disposition'' \<noteq> js ''X-Generation-Time-Ms''"
  "js ''Content-Disposition'' \<noteq> js ''Content-Length''"
  "js ''X-Generation-Time-Ms'' \<noteq> js ''Content-Length''"
  "js ''X-Generation-Time-Ms'' \<noteq> js ''Content-Disposition''"
  "js ''Content-Length'' \<noteq> js ''Content-Disposition''"
  "js ''Content-Length'' \<noteq> js ''X-Generation-Time-Ms''"
  by (simp_all add: js_def)

lemma js_nonempty:
  "js ''0'' \<noteq> []" "js ''n/a'' \<noteq> []" "js ''42'' \<noteq> []" "js ''100'' \<noteq> []"
  "js ''x.pdf'' \<noteq> []" "js ''%'' \<noteq> []" "js ''document.pdf'' \<noteq> []" "quoted_filename f \<noteq> []"
  by (simp_all add: js_def quoted_filename_def)

lemma uri_not_abort: "js ''URIError'' \<noteq> js ''AbortError''"
  by (simp add: js_def)

subsection \<open>What is read from the headers of the response\<close>

text \<open>
  Claim C3 on the code: a success response whose \<open>X-Generation-Time-Ms\<close> header does not
  parse as an integer gives a result whose \<open>generationTimeMs\<close> is \<open>NaN\<close>, not 0. The
  default \<open>"0"\<close> only replaces a missing or empty header.
\<close>

theorem unparsable_generation_time_is_NaN:
  "ok unparsable_time_response \<and>
   resp_headers unparsable_time_response (js ''X-Generation-Time-Ms'') = Some (js ''n/a'') \<and>
   parseInt10 (js ''n/a'') = NaN \<and>
   outcome
     (generate (answering (Resolved unparsable_time_response)) example_config (js ''tpl'')
        example_request) =
     Inr \<lparr>pdf = pdf_octets, filename = js ''document.pdf'', generationTimeMs = NaN,
          contentLength = Num 4\<rparr>"
proof -
  have "fst (tryResponse example_config unparsable_time_response) =
     Inr \<lparr>pdf = pdf_octets, filename = js ''document.pdf'', generationTimeMs = NaN,
          contentLength = Num 4\<rparr>"
    by (simp add: tryResponse_def unparsable_time_response_def example_response_def ok_def
        response_header_names parseInt10_examples filenameMatch_examples js_nonempty
        decodeURIComponent_examples pdf_octets_def Let_def)
  with generate_resolved [OF example_fetch_calls example_fetch,
      of unparsable_time_response example_config]
  show ?thesis
    by (simp add: parseInt10_examples)
      (simp add: unparsable_time_response_def example_response_def ok_def)
qed

text \<open>
  Claim C4 on the code: a 429 response with the header \<open>Retry-After: 0\<close> gives a
  \<open>RateLimitError\<close> whose \<open>retryAfter\<close> is \<open>undefined\<close>, although the header parses as the
  integer 0: \<open>|| undefined\<close> drops zero together with \<open>NaN\<close>.
\<close>

theorem retry_after_zero_is_dropped:
  "status retry_now_response = 429 \<and>
   resp_headers retry_now_response (js ''Retry-After'') = Some (js ''0'') \<and>
   parseInt10 (js ''0'') = Num 0 \<and>
   outcome
     (generate (answering (Resolved retry_now_response)) example_config (js ''tpl'')
        example_request) = Inl (Sdk retry_now_error) \<and>
   cls retry_now_error = RateLimitError \<and> retryAfter retry_now_error = None"
proof -
  have s: "status retry_now_response = 429"
    and h: "resp_headers retry_now_response (js ''Retry-After'') = Some (js ''0'')"
    and j: "json retry_now_response = JsonValue throttle_body"
    by (simp_all add: retry_now_response_def example_response_def)
  have nok: "\<not> ok retry_now_response"
    by (simp add: ok_def s)
  have ce: "createError (status retry_now_response)
      (case json retry_now_response of
         JsonReject \<Rightarrow> fallbackBody (statusText retry_now_response)
       | JsonValue v \<Rightarrow> v)
      (resp_headers retry_now_response) = Inr retry_now_error"
    by (simp add: j s h throttle_body_def createError_error_message_object retry_now_error_def
        js_nonempty parseInt10_examples)
  from generate_failure_raises [OF example_fetch_calls example_fetch nok ce] s h
  show ?thesis
    by (simp add: parseInt10_examples retry_now_error_def)
qed

text \<open>
  Claim C10: there is a success response, with the header
  \<open>Content-Disposition: attachment; filename="%"\<close>, for which \<open>generate\<close> returns no result:
  \<open>decodeURIComponent\<close> throws a \<open>URIError\<close>, which the \<open>catch\<close> block wraps, so that the
  call throws a \<open>NetworkError\<close> with the \<open>URIError\<close> as its cause.
\<close>

theorem malformed_filename_network_error:
  "ok percent_response \<and>
   resp_headers percent_response (js ''Content-Disposition'') = Some (quoted_filename ''%'') \<and>
   decodeURIComponent (js ''%'') = Inl URIError \<and>
   outcome
     (generate (answering (Resolved percent_response)) example_config (js ''tpl'')
        example_request) =
     Inl (Sdk (new_NetworkError (js ''Network request failed: '' @ js ''URI malformed'')
                 (Some URIError))) \<and>
   cls (new_NetworkError (js ''Network request failed: '' @ js ''URI malformed'')
          (Some URIError)) = NetworkError"
proof -
  have "fst (tryResponse example_config percent_response) = Inl (Js URIError)"
    by (simp add: tryResponse_def percent_response_def example_response_def ok_def
        response_header_names parseInt10_examples filenameMatch_examples js_nonempty
        decodeURIComponent_examples Let_def)
  with generate_resolved [OF example_fetch_calls example_fetch,
      of percent_response example_config]
  show ?thesis
    by (simp add: decodeURIComponent_examples cls_simps URIError_def wrapError_def
        uri_not_abort)
      (simp add: percent_response_def example_response_def ok_def)
qed


text \<open>The outcome for a success response whose body has been read.\<close>

lemma tryResponse_success:
  assumes "ok resp" and "arrayBuffer resp = Inr body"
  shows "fst (tryResponse cfg resp) =
    (case decodeURIComponent
            (string_or (filenameMatch (string_or (resp_headers resp (js ''Content-Disposition'')) []))
               (js ''document.pdf'')) of
       Inl e \<Rightarrow> Inl (Js e)
     | Inr decoded \<Rightarrow>
         Inr \<lparr>pdf = body, filename = decoded,
              generationTimeMs =
                parseInt10 (string_or (resp_headers resp (js ''X-Generation-Time-Ms'')) (js ''0'')),
              contentLength =
                (if truthy_number
                      (parseInt10 (string_or (resp_headers resp (js ''Content-Length'')) (js ''0'')))
                 then parseInt10 (string_or (resp_headers resp (js ''Content-Length'')) (js ''0''))
                 else Num (int (length body)))\<rparr>)"
  using assms by (simp add: tryResponse_def Let_def split: sum.splits)

lemma generate_success:
  assumes calls: "fetch_calls (generate rt cfg t r) = [rq]"
    and res: "fetch rt rq = Resolved resp"
    and ok: "ok resp"
    and body: "arrayBuffer resp = Inr body"
  shows "outcome (generate rt cfg t r) =
    (case decodeURIComponent
            (string_or (filenameMatch (string_or (resp_headers resp (js ''Content-Disposition'')) []))
               (js ''document.pdf'')) of
       Inl e \<Rightarrow> Inl (catchBlock cfg (Js e))
     | Inr decoded \<Rightarrow>
         Inr \<lparr>pdf = body, filename = decoded,
              generationTimeMs =
                parseInt10 (string_or (resp_headers resp (js ''X-Generation-Time-Ms'')) (js ''0'')),
              contentLength =
                (if truthy_number
                      (parseInt10 (string_or (resp_headers resp (js ''Content-Length'')) (js ''0'')))
                 then parseInt10 (string_or (resp_headers resp (js ''Content-Length'')) (js ''0''))
                 else Num (int (length body)))\<rparr>)"
  using generate_resolved [OF calls res] tryResponse_success [OF ok body, of cfg]
  by (simp split: sum.splits)

lemma unmatched_filename:
  assumes "case h of None \<Rightarrow> True | Some cd \<Rightarrow> filenameMatch cd = None"
  shows "string_or (filenameMatch (string_or h [])) (js ''document.pdf'') = js ''document.pdf''"
  using assms by (cases h) auto

lemma falsy_content_length:
  assumes "case h of None \<Rightarrow> True | Some cl \<Rightarrow> parseInt10 cl = NaN \<or> parseInt10 cl = Num 0"
  shows "\<not> truthy_number (parseInt10 (string_or h (js ''0'')))"
  using assms by (cases h) (auto simp: parseInt10_examples)

subsection \<open>The result of a success response\<close>

lemma encode_lone_surrogate: "encodeURIComponent [0xD800] = Inl URIError"
  by (simp add: isUnescaped_def isTrailingSurrogate_def isLeadingSurrogate_def)

text \<open>
  Claim C6, as stated, fails: the template id made of the unpaired surrogate \<open>U+D800\<close> is
  not empty, but \<open>encodeURIComponent\<close> throws a \<open>URIError\<close> on it before \<open>fetch\<close> is called,
  so no result is returned even by a runtime that answers every request with the 2xx
  response of the claim.
\<close>

theorem unpaired_surrogate_template_id:
  "[0xD800] \<noteq> ([] :: jsstring) \<and>
   fetch (answering (Resolved full_response)) (example_call example_config) =
     Resolved full_response \<and>
   outcome
     (generate (answering (Resolved full_response)) example_config [0xD800] example_request) =
     Inl (Js URIError) \<and>
   fetch_calls
     (generate (answering (Resolved full_response)) example_config [0xD800] example_request) =
     []"
  by (simp add: generate_def encode_lone_surrogate example_fetch del: encodeURIComponent.simps)

text \<open>
  Claim C6, amended: for every non-empty template id that \<open>encodeURIComponent\<close> encodes
  (one with no unpaired surrogate) and every request that \<open>JSON.stringify\<close> serialises,
  when the request that \<open>generate\<close> builds is answered by a 2xx response whose body is read
  as \<open>buf\<close>, then (1) with the headers
  \<open>Content-Disposition: attachment; filename="x.pdf"\<close>, \<open>X-Generation-Time-Ms: 42\<close> and
  \<open>Content-Length: 100\<close> the result has file name \<open>x.pdf\<close>, generation time 42, content
  length 100 and the octets of \<open>buf\<close>; (2) when \<open>Content-Disposition\<close> is missing or the
  pattern does not match it, a result is returned with the file name \<open>document.pdf\<close>;
  (3) when \<open>Content-Length\<close> is missing, does not parse or parses as zero, the content length
  of the result is the number of octets of \<open>buf\<close>.
\<close>

theorem success_response_decoding:
  assumes "t \<noteq> []"
    and "encodeURIComponent t = Inr segment"
    and "JSON_stringify rt (data r, options r) = Inr body"
    and "fetch rt
           \<lparr>req_url = baseUrl cfg @ js ''/api/v1/generate/'' @ segment, req_method = js ''POST'',
            req_headers = requestHeaders cfg, req_body = body\<rparr> = Resolved resp"
    and "ok resp"
    and "arrayBuffer resp = Inr buf"
  shows "(resp_headers resp (js ''Content-Disposition'') = Some (quoted_filename ''x.pdf'') \<and>
          resp_headers resp (js ''X-Generation-Time-Ms'') = Some (js ''42'') \<and>
          resp_headers resp (js ''Content-Length'') = Some (js ''100'') \<longrightarrow>
          outcome (generate rt cfg t r) =
            Inr \<lparr>pdf = buf, filename = js ''x.pdf'', generationTimeMs = Num 42,
                 contentLength = Num 100\<rparr>) \<and>
         ((case resp_headers resp (js ''Content-Disposition'') of
             None \<Rightarrow> True
           | Some cd \<Rightarrow> filenameMatch cd = None) \<longrightarrow>
          (\<exists>res. outcome (generate rt cfg t r) = Inr res \<and> pdf res = buf \<and>
                 filename res = js ''document.pdf'')) \<and>
         ((case resp_headers resp (js ''Content-Length'') of
             None \<Rightarrow> True
           | Some cl \<Rightarrow> parseInt10 cl = NaN \<or> parseInt10 cl = Num 0) \<longrightarrow>
          (\<forall>res. outcome (generate rt cfg t r) = Inr res \<longrightarrow>
                 contentLength res = Num (int (length buf))))"
proof (intro conjI impI)
  note calls = generate_issues_one_request [OF assms(1,2,3), of cfg]
  note out = generate_success [OF calls assms(4,5,6)]
  {
    assume "resp_headers resp (js ''Content-Disposition'') = Some (quoted_filename ''x.pdf'') \<and>
            resp_headers resp (js ''X-Generation-Time-Ms'') = Some (js ''42'') \<and>
            resp_headers resp (js ''Content-Length'') = Some (js ''100'')"
    then show "outcome (generate rt cfg t r) =
              Inr \<lparr>pdf = buf, filename = js ''x.pdf'', generationTimeMs = Num 42,
                   contentLength = Num 100\<rparr>"
      using out
      by (simp add: js_nonempty filenameMatch_examples decodeURIComponent_examples
          parseInt10_examples)
  next
    assume "case resp_headers resp (js ''Content-Disposition'') of
               None \<Rightarrow> True
             | Some cd \<Rightarrow> filenameMatch cd = None"
    from unmatched_filename [OF this]
    show "\<exists>res. outcome (generate rt cfg t r) = Inr res \<and> pdf res = buf \<and>
                   filename res = js ''document.pdf''"
      using out by (simp add: decodeURIComponent_examples)
  next
    assume "case resp_headers resp (js ''Content-Length'') of
               None \<Rightarrow> True
             | Some cl \<Rightarrow> parseInt10 cl = NaN \<or> parseInt10 cl = Num 0"
    from falsy_content_length [OF this]
    show "\<forall>res. outcome (generate rt cfg t r) = Inr res \<longrightarrow>
                   contentLength res = Num (int (length buf))"
      using out by (auto split: sum.splits)
  }
qed

theorem success_response_decoding_witness:
  "js ''tpl'' \<noteq> [] \<and> encodeURIComponent (js ''tpl'') = Inr (js ''tpl'') \<and>
   ok full_response \<and> arrayBuffer full_response = Inr pdf_octets \<and>
   outcome
     (generate (answering (Resolved full_response)) example_config (js ''tpl'') example_request) =
     Inr \<lparr>pdf = pdf_octets, filename = js ''x.pdf'', generationTimeMs = Num 42,
          contentLength = Num 100\<rparr> \<and>
   ok bare_response \<and> arrayBuffer bare_response = Inr pdf_octets \<and>
   (\<exists>res. outcome
            (generate (answering (Resolved bare_response)) example_config (js ''tpl'')
               example_request) = Inr res \<and>
          pdf res = pdf_octets \<and> filename res = js ''document.pdf'' \<and>
          contentLength res = Num 4)"
proof -
  have okf: "ok full_response" and bf: "arrayBuffer full_response = Inr pdf_octets"
    and hf: "resp_headers full_response (js ''Content-Disposition'') =
               Some (quoted_filename ''x.pdf'') \<and>
             resp_headers full_response (js ''X-Generation-Time-Ms'') = Some (js ''42'') \<and>
             resp_headers full_response (js ''Content-Length'') = Some (js ''100'')"
    by (simp_all add: full_response_def example_response_def ok_def pdf_octets_def
        response_header_names)
  have okb: "ok bare_response" and bb: "arrayBuffer bare_response = Inr pdf_octets"
    and hb: "resp_headers bare_response (js ''Content-Disposition'') = None"
      "resp_headers bare_response (js ''Content-Length'') = None"
    by (simp_all add: bare_response_def example_response_def ok_def pdf_octets_def)
  have len: "Num (int (length pdf_octets)) = Num 4"
    by (simp add: pdf_octets_def)
  note full = success_response_decoding
    [OF tpl_not_empty encode_tpl example_stringify example_fetch okf bf,
      where cfg = example_config and r = example_request]
  note bare = success_response_decoding
    [OF tpl_not_empty encode_tpl example_stringify example_fetch okb bb,
      where cfg = example_config and r = example_request]
  from full hf have 1: "outcome
     (generate (answering (Resolved full_response)) example_config (js ''tpl'') example_request) =
     Inr \<lparr>pdf = pdf_octets, filename = js ''x.pdf'', generationTimeMs = Num 42,
          contentLength = Num 100\<rparr>"
    by blast
  from bare hb len have 2: "\<exists>res. outcome
            (generate (answering (Resolved bare_response)) example_config (js ''tpl'')
               example_request) = Inr res \<and>
          pdf res = pdf_octets \<and> filename res = js ''document.pdf'' \<and>
          contentLength res = Num 4"
    by auto
  from 1 2 okf bf okb bb show ?thesis
    by (simp add: tpl_not_empty encode_tpl)
qed

end
